theory Spec2Isabelle
  imports Complex_Main "HOL-Library.Product_Lexorder"
begin

section \<open>KnowledgeSync: entry model, topic graph, store and merge engine\<close>

text \<open>
  A shallow embedding of \<^verbatim>\<open>knowledgesync.py\<close>: the classes \<^verbatim>\<open>KnowledgeEntry\<close>,
  \<^verbatim>\<open>KnowledgeGraph\<close> and \<^verbatim>\<open>KnowledgeSync\<close>. Conventions of the model:
  \<^item> a \<^verbatim>\<open>datetime\<close> is an \<open>int\<close>, the microseconds since 0001-01-01T00:00:00; every
    operation that reads \<^verbatim>\<open>datetime.now()\<close> takes the instant as its argument \<open>now\<close>;
  \<^item> a \<^verbatim>\<open>float\<close> (confidence, edge weight) is a \<open>real\<close>; the code only compares and
    clamps these numbers, it never does arithmetic on them;
  \<^item> a \<^verbatim>\<open>str\<close> is a \<open>string\<close> of code points below 256 (Latin-1), with the
    whitespace and the case mapping that Python has for these code points;
  \<^item> a \<^verbatim>\<open>dict\<close> is an association list with unique keys in insertion order;
  \<^item> persistence (\<^verbatim>\<open>_load\<close>, \<^verbatim>\<open>_save\<close>) and subscription callbacks are outside the
    model: the store is taken with no subscriber registered.
\<close>

subsection \<open>Strings\<close>

type_synonym datetime = int

definition isspace :: "char \<Rightarrow> bool" where
  \<comment> \<open>\<^verbatim>\<open>str.isspace\<close> on the code points below 256\<close>
  "isspace c = (of_char c \<in> set [9, 10, 11, 12, 13, 28, 29, 30, 31, 32, 133, 160 :: nat])"

definition strip :: "string \<Rightarrow> string" where
  "strip s = rev (dropWhile isspace (rev (dropWhile isspace s)))"

definition lower_char :: "char \<Rightarrow> char" where
  \<comment> \<open>\<^verbatim>\<open>str.lower\<close> on one code point below 256: the letters A to Z and U+00C0 to U+00DE
      (but the sign U+00D7) move up by 32, every other code point stays\<close>
  "lower_char c =
     (case map_of
        (zip (''ABCDEFGHIJKLMNOPQRSTUVWXYZ'' @
              [CHR 0xC0, CHR 0xC1, CHR 0xC2, CHR 0xC3, CHR 0xC4, CHR 0xC5, CHR 0xC6, CHR 0xC7,
              CHR 0xC8, CHR 0xC9, CHR 0xCA, CHR 0xCB, CHR 0xCC, CHR 0xCD, CHR 0xCE, CHR 0xCF,
              CHR 0xD0, CHR 0xD1, CHR 0xD2, CHR 0xD3, CHR 0xD4, CHR 0xD5, CHR 0xD6, CHR 0xD8,
              CHR 0xD9, CHR 0xDA, CHR 0xDB, CHR 0xDC, CHR 0xDD, CHR 0xDE])
             (''abcdefghijklmnopqrstuvwxyz'' @
              [CHR 0xE0, CHR 0xE1, CHR 0xE2, CHR 0xE3, CHR 0xE4, CHR 0xE5, CHR 0xE6, CHR 0xE7,
              CHR 0xE8, CHR 0xE9, CHR 0xEA, CHR 0xEB, CHR 0xEC, CHR 0xED, CHR 0xEE, CHR 0xEF,
              CHR 0xF0, CHR 0xF1, CHR 0xF2, CHR 0xF3, CHR 0xF4, CHR 0xF5, CHR 0xF6, CHR 0xF8,
              CHR 0xF9, CHR 0xFA, CHR 0xFB, CHR 0xFC, CHR 0xFD, CHR 0xFE])) c of
        Some l \<Rightarrow> l | None \<Rightarrow> c)"

definition upper_char :: "char \<Rightarrow> string" where
  \<comment> \<open>\<^verbatim>\<open>str.upper\<close> on one code point below 256: the letters a to z and U+00E0 to U+00FE
      (but the sign U+00F7) move down by 32, and U+00DF becomes the two letters SS. The
      upper-case forms of U+00B5 and U+00FF (U+039C and U+0178) are no code points below
      256: the model keeps these two as they are, so it speaks of strings without them
      where a string is upper-cased (a source, a category)\<close>
  "upper_char c =
     (if c = CHR 0xDF then ''SS''
      else case map_of
        (zip (''abcdefghijklmnopqrstuvwxyz'' @
              [CHR 0xE0, CHR 0xE1, CHR 0xE2, CHR 0xE3, CHR 0xE4, CHR 0xE5, CHR 0xE6, CHR 0xE7,
              CHR 0xE8, CHR 0xE9, CHR 0xEA, CHR 0xEB, CHR 0xEC, CHR 0xED, CHR 0xEE, CHR 0xEF,
              CHR 0xF0, CHR 0xF1, CHR 0xF2, CHR 0xF3, CHR 0xF4, CHR 0xF5, CHR 0xF6, CHR 0xF8,
              CHR 0xF9, CHR 0xFA, CHR 0xFB, CHR 0xFC, CHR 0xFD, CHR 0xFE])
             (''ABCDEFGHIJKLMNOPQRSTUVWXYZ'' @
              [CHR 0xC0, CHR 0xC1, CHR 0xC2, CHR 0xC3, CHR 0xC4, CHR 0xC5, CHR 0xC6, CHR 0xC7,
              CHR 0xC8, CHR 0xC9, CHR 0xCA, CHR 0xCB, CHR 0xCC, CHR 0xCD, CHR 0xCE, CHR 0xCF,
              CHR 0xD0, CHR 0xD1, CHR 0xD2, CHR 0xD3, CHR 0xD4, CHR 0xD5, CHR 0xD6, CHR 0xD8,
              CHR 0xD9, CHR 0xDA, CHR 0xDB, CHR 0xDC, CHR 0xDD, CHR 0xDE])) c of
        Some u \<Rightarrow> [u] | None \<Rightarrow> [c])"

definition upper :: "string \<Rightarrow> string" where
  "upper s = concat (map upper_char s)"

definition lower :: "string \<Rightarrow> string" where
  "lower s = map lower_char s"

fun startswith :: "string \<Rightarrow> string \<Rightarrow> bool" where
  "startswith s [] = True"
| "startswith [] (q # qs) = False"
| "startswith (c # cs) (q # qs) = (c = q \<and> startswith cs qs)"

fun contains :: "string \<Rightarrow> string \<Rightarrow> bool" where
  \<comment> \<open>\<^verbatim>\<open>q in s\<close> on strings\<close>
  "contains [] q = (q = [])"
| "contains (c # cs) q = (startswith (c # cs) q \<or> contains cs q)"

subsection \<open>Dictionaries\<close>

definition dict_get :: "('k \<times> 'v) list \<Rightarrow> 'k \<Rightarrow> 'v option" where
  "dict_get d k = map_of d k"

definition dict_has :: "('k \<times> 'v) list \<Rightarrow> 'k \<Rightarrow> bool" where
  "dict_has d k = (k \<in> set (map fst d))"

fun dict_set :: "('k \<times> 'v) list \<Rightarrow> 'k \<Rightarrow> 'v \<Rightarrow> ('k \<times> 'v) list" where
  \<comment> \<open>\<^verbatim>\<open>d[k] = v\<close>: an existing key keeps its position, a new key goes last\<close>
  "dict_set [] k v = [(k, v)]"
| "dict_set ((k', v') # d) k v = (if k' = k then (k, v) # d else (k', v') # dict_set d k v)"

definition dict_del :: "('k \<times> 'v) list \<Rightarrow> 'k \<Rightarrow> ('k \<times> 'v) list" where
  "dict_del d k = filter (\<lambda>kv. fst kv \<noteq> k) d"

definition dict_update :: "('k \<times> 'v) list \<Rightarrow> ('k \<times> 'v) list \<Rightarrow> ('k \<times> 'v) list" where
  \<comment> \<open>\<^verbatim>\<open>d.update(other)\<close>\<close>
  "dict_update d other = foldl (\<lambda>acc kv. dict_set acc (fst kv) (snd kv)) d other"

subsection \<open>Configuration\<close>

definition CATEGORIES :: "string list" where
  "CATEGORIES = [''DECISION'', ''FINDING'', ''PROBLEM'', ''SOLUTION'', ''TODO'',
     ''REFERENCE'', ''CONFIG'', ''RELATIONSHIP'', ''FACT'', ''INSIGHT'']"

datatype error = ValueError | OverflowError | KeyError

subsection \<open>KnowledgeEntry\<close>

record KnowledgeEntry =
  entry_id :: string
  content :: string
  source :: string
  category :: string
  topics :: "string list"
  confidence :: real
  created :: datetime
  updated :: datetime
  expires :: "datetime option"
  references :: "string list"
  metadata :: "(string \<times> string) list"

text \<open>
  \<^verbatim>\<open>KnowledgeEntry.__init__\<close>. The two library functions it calls are parameters:
  \<open>sha256_hex\<close> for \<^verbatim>\<open>hashlib.sha256(s.encode()).hexdigest()\<close> and \<open>isoformat\<close> for
  \<^verbatim>\<open>datetime.isoformat\<close>. An optional argument is an \<open>option\<close>; \<^verbatim>\<open>x or d\<close> takes
  \<open>d\<close> for \<^verbatim>\<open>None\<close> and for an empty value. The constructor has no check of
  \<open>content\<close> and no \<^verbatim>\<open>raise\<close>.
\<close>

definition clamp01 :: "real \<Rightarrow> real" where
  \<comment> \<open>\<^verbatim>\<open>min(1.0, max(0.0, confidence))\<close>\<close>
  "clamp01 c = min 1 (max 0 c)"

definition KnowledgeEntry_init ::
  "(string \<Rightarrow> string) \<Rightarrow> (datetime \<Rightarrow> string) \<Rightarrow> datetime \<Rightarrow>
   string \<Rightarrow> string \<Rightarrow> string \<Rightarrow> string list option \<Rightarrow> real \<Rightarrow> datetime option \<Rightarrow>
   string list option \<Rightarrow> (string \<times> string) list option \<Rightarrow> string option \<Rightarrow>
   datetime option \<Rightarrow> datetime option \<Rightarrow> KnowledgeEntry" where
  "KnowledgeEntry_init sha256_hex isoformat now
     content0 source0 category0 topics0 confidence0 expires0 references0 metadata0
     entry_id0 created0 updated0 =
   (let created1 = (case created0 of Some c \<Rightarrow> c | None \<Rightarrow> now);
        updated1 = (case updated0 of Some u \<Rightarrow> u | None \<Rightarrow> created1)
    in \<lparr> entry_id =
           (case entry_id0 of
              Some i \<Rightarrow> if i \<noteq> [] then i
                        else take 16 (sha256_hex
                               (content0 @ '':'' @ source0 @ '':'' @ isoformat created1))
            | None \<Rightarrow> take 16 (sha256_hex
                               (content0 @ '':'' @ source0 @ '':'' @ isoformat created1))),
         content = content0,
         source = upper source0,
         category = (if upper category0 \<in> set CATEGORIES then upper category0 else ''FACT''),
         topics = map lower (case topics0 of Some ts \<Rightarrow> ts | None \<Rightarrow> []),
         confidence = clamp01 confidence0,
         created = created1,
         updated = updated1,
         expires = expires0,
         references = (case references0 of Some r \<Rightarrow> r | None \<Rightarrow> []),
         metadata = (case metadata0 of Some m \<Rightarrow> m | None \<Rightarrow> []) \<rparr>)"

definition is_expired :: "datetime \<Rightarrow> KnowledgeEntry \<Rightarrow> bool" where
  \<comment> \<open>\<^verbatim>\<open>datetime.now() > self.expires\<close>, with \<open>now\<close> the instant read\<close>
  "is_expired now e = (case expires e of None \<Rightarrow> False | Some x \<Rightarrow> now > x)"

definition matches_query :: "KnowledgeEntry \<Rightarrow> string \<Rightarrow> bool" where
  "matches_query e query =
     (let query_lower = lower query
      in if contains (lower (content e)) query_lower then True
         else if list_ex (\<lambda>topic. contains topic query_lower) (topics e) then True
         else if contains (lower (category e)) query_lower then True
         else False)"

subsection \<open>KnowledgeGraph\<close>

text \<open>
  A node's metadata dictionary holds \<^verbatim>\<open>"created"\<close>, \<^verbatim>\<open>"references"\<close> and whatever else
  the caller passed; a node merged in from another graph may lack either key, so both
  are optional. An edge is the dictionary with the five keys \<^verbatim>\<open>add_edge\<close> writes.
\<close>

record node_meta =
  n_created :: "datetime option"
  n_references :: "int option"
  n_extra :: "(string \<times> string) list"

record edge =
  e_source :: string
  e_target :: string
  e_relation :: string
  e_weight :: real
  e_created :: datetime

record KnowledgeGraph =
  nodes :: "(string \<times> node_meta) list"
  edges :: "edge list"

definition KnowledgeGraph_init :: KnowledgeGraph where
  "KnowledgeGraph_init = \<lparr> nodes = [], edges = [] \<rparr>"

definition bump_references :: "node_meta \<Rightarrow> node_meta" where
  \<comment> \<open>\<^verbatim>\<open>m["references"] = m.get("references", 0) + 1\<close>\<close>
  "bump_references m =
     m\<lparr> n_references := Some ((case n_references m of Some r \<Rightarrow> r | None \<Rightarrow> 0) + 1) \<rparr>"

definition add_node ::
  "KnowledgeGraph \<Rightarrow> string \<Rightarrow> node_meta option \<Rightarrow> datetime \<Rightarrow> KnowledgeGraph" where
  "add_node g topic0 metadata0 now =
     (let topic = lower topic0;
          nodes1 =
            (if \<not> dict_has (nodes g) topic
             then dict_set (nodes g) topic
                    (case metadata0 of
                       None \<Rightarrow> \<lparr> n_created = Some now, n_references = Some 0, n_extra = [] \<rparr>
                     | Some m \<Rightarrow>
                         \<lparr> n_created = (case n_created m of Some c \<Rightarrow> Some c | None \<Rightarrow> Some now),
                           n_references = (case n_references m of Some r \<Rightarrow> Some r | None \<Rightarrow> Some 0),
                           n_extra = n_extra m \<rparr>)
             else nodes g)
      in g\<lparr> nodes := map (\<lambda>kv. if fst kv = topic then (fst kv, bump_references (snd kv)) else kv)
                          nodes1 \<rparr>)"

fun update_first_edge :: "edge list \<Rightarrow> string \<Rightarrow> string \<Rightarrow> string \<Rightarrow> real \<Rightarrow> edge list option" where
  \<comment> \<open>the search loop of \<^verbatim>\<open>add_edge\<close>: the first edge with this source and target is
      updated and the loop returns; \<open>None\<close> when the loop finds no such edge\<close>
  "update_first_edge [] s t r w = None"
| "update_first_edge (e # es) s t r w =
     (if e_source e = s \<and> e_target e = t
      then Some (e\<lparr> e_weight := max (e_weight e) w, e_relation := r \<rparr> # es)
      else (case update_first_edge es s t r w of
              None \<Rightarrow> None
            | Some es' \<Rightarrow> Some (e # es')))"

definition add_edge ::
  "KnowledgeGraph \<Rightarrow> string \<Rightarrow> string \<Rightarrow> string \<Rightarrow> real \<Rightarrow> datetime \<Rightarrow> KnowledgeGraph" where
  "add_edge g source0 target0 relation0 weight0 now =
     (let s = lower source0;
          t = lower target0;
          g1 = add_node g s None now;
          g2 = add_node g1 t None now
      in case update_first_edge (edges g2) s t relation0 weight0 of
           Some es \<Rightarrow> g2\<lparr> edges := es \<rparr>
         | None \<Rightarrow>
             g2\<lparr> edges := edges g2 @
                   [\<lparr> e_source = s, e_target = t, e_relation = relation0,
                      e_weight = weight0, e_created = now \<rparr>] \<rparr>)"

subsection \<open>KnowledgeSync: the store\<close>

record stats =
  added :: nat
  updated_count :: nat
  conflicts :: nat

record sync_record =
  sr_timestamp :: datetime
  sr_agent :: string
  sr_synced_with :: string
  sr_stats :: stats

record KnowledgeSync =
  agent :: string
  entries :: "(string \<times> KnowledgeEntry) list"
  graph :: KnowledgeGraph
  sync_log :: "sync_record list"

definition MAX_DATETIME :: datetime where
  \<comment> \<open>\<^verbatim>\<open>datetime.max\<close>, 9999-12-31T23:59:59.999999\<close>
  "MAX_DATETIME = 3652059 * 86400000000 - 1"

definition plus_days :: "datetime \<Rightarrow> int \<Rightarrow> error + datetime" where
  \<comment> \<open>\<^verbatim>\<open>now + timedelta(days=d)\<close>; both steps raise \<^verbatim>\<open>OverflowError\<close> out of range\<close>
  "plus_days now d =
     (if \<bar>d\<bar> > 999999999 then Inl OverflowError
      else let t = now + d * 86400000000
           in if t < 0 \<or> t > MAX_DATETIME then Inl OverflowError else Inr t)"

fun add_topic_nodes :: "KnowledgeGraph \<Rightarrow> string list \<Rightarrow> datetime \<Rightarrow> KnowledgeGraph" where
  \<comment> \<open>\<^verbatim>\<open>for topic in entry.topics: self.graph.add_node(topic)\<close>\<close>
  "add_topic_nodes g [] now = g"
| "add_topic_nodes g (t # ts) now = add_topic_nodes (add_node g t None now) ts now"

fun add_edges_from :: "KnowledgeGraph \<Rightarrow> string \<Rightarrow> string list \<Rightarrow> datetime \<Rightarrow> KnowledgeGraph" where
  \<comment> \<open>\<^verbatim>\<open>for topic2 in entry.topics[i+1:]: self.graph.add_edge(topic1, topic2, "co-occurs")\<close>\<close>
  "add_edges_from g topic1 [] now = g"
| "add_edges_from g topic1 (topic2 # ts) now =
     add_edges_from (add_edge g topic1 topic2 ''co-occurs'' 1 now) topic1 ts now"

fun add_topic_edges :: "KnowledgeGraph \<Rightarrow> string list \<Rightarrow> datetime \<Rightarrow> KnowledgeGraph" where
  \<comment> \<open>\<^verbatim>\<open>for i, topic1 in enumerate(entry.topics): ...\<close>\<close>
  "add_topic_edges g [] now = g"
| "add_topic_edges g (topic1 # ts) now = add_topic_edges (add_edges_from g topic1 ts now) ts now"

definition add ::
  "(string \<Rightarrow> string) \<Rightarrow> (datetime \<Rightarrow> string) \<Rightarrow> datetime \<Rightarrow> KnowledgeSync \<Rightarrow>
   string \<Rightarrow> string \<Rightarrow> string list option \<Rightarrow> real \<Rightarrow> int option \<Rightarrow>
   string list option \<Rightarrow> (string \<times> string) list option \<Rightarrow>
   (error + KnowledgeEntry) \<times> KnowledgeSync" where
  "add sha256_hex isoformat now self content0 category0 topics0 confidence0 expires_in_days
       references0 metadata0 =
   (if content0 = [] \<or> strip content0 = [] then (Inl ValueError, self)
    else
      case (case expires_in_days of
              None \<Rightarrow> Inr None
            | Some d \<Rightarrow>
                if d \<noteq> 0
                then (case plus_days now d of Inl err \<Rightarrow> Inl err | Inr t \<Rightarrow> Inr (Some t))
                else Inr None) of
        Inl err \<Rightarrow> (Inl err, self)
      | Inr expires0 \<Rightarrow>
          let entry = KnowledgeEntry_init sha256_hex isoformat now
                        (strip content0) (agent self) category0
                        (Some (case topics0 of Some ts \<Rightarrow> ts | None \<Rightarrow> []))
                        confidence0 expires0 references0 metadata0 None None None;
              entries1 = dict_set (entries self) (entry_id entry) entry;
              g1 = add_topic_nodes (graph self) (topics entry) now;
              g2 = add_topic_edges g1 (topics entry) now
          in (Inr entry, self\<lparr> entries := entries1, graph := g2 \<rparr>))"

definition update ::
  "datetime \<Rightarrow> KnowledgeSync \<Rightarrow> string \<Rightarrow> string option \<Rightarrow> string option \<Rightarrow>
   string list option \<Rightarrow> real option \<Rightarrow> (string \<times> string) list option \<Rightarrow>
   KnowledgeEntry option \<times> KnowledgeSync" where
  "update now self eid content0 category0 topics0 confidence0 metadata0 =
   (case dict_get (entries self) eid of
      None \<Rightarrow> (None, self)
    | Some entry \<Rightarrow>
        let e1 = (case content0 of Some c \<Rightarrow> entry\<lparr> content := strip c \<rparr> | None \<Rightarrow> entry);
            e2 = (case category0 of Some c \<Rightarrow> e1\<lparr> category := upper c \<rparr> | None \<Rightarrow> e1);
            e3 = (case topics0 of Some ts \<Rightarrow> e2\<lparr> topics := map lower ts \<rparr> | None \<Rightarrow> e2);
            e4 = (case confidence0 of Some c \<Rightarrow> e3\<lparr> confidence := clamp01 c \<rparr> | None \<Rightarrow> e3);
            e5 = (case metadata0 of
                    Some m \<Rightarrow> e4\<lparr> metadata := dict_update (metadata e4) m \<rparr>
                  | None \<Rightarrow> e4);
            e6 = e5\<lparr> updated := now \<rparr>
        in (Some e6, self\<lparr> entries := dict_set (entries self) eid e6 \<rparr>))"

definition delete :: "KnowledgeSync \<Rightarrow> string \<Rightarrow> bool \<times> KnowledgeSync" where
  "delete self eid =
     (if \<not> dict_has (entries self) eid then (False, self)
      else (True, self\<lparr> entries := dict_del (entries self) eid \<rparr>))"

definition get :: "KnowledgeSync \<Rightarrow> string \<Rightarrow> KnowledgeEntry option" where
  "get self eid = dict_get (entries self) eid"

subsection \<open>Queries\<close>

definition next_level :: "edge list \<Rightarrow> string set \<Rightarrow> string list \<Rightarrow> string list" where
  \<comment> \<open>one ring of \<^verbatim>\<open>get_related\<close>: the nested iteration over the ring and the edges\<close>
  "next_level es visited current_level =
     remdups (concat (map (\<lambda>node. concat (map (\<lambda>e.
        if e_source e = node \<and> e_target e \<notin> visited then [e_target e]
        else if e_target e = node \<and> e_source e \<notin> visited then [e_source e]
        else []) es)) current_level))"

fun related_loop :: "edge list \<Rightarrow> nat \<Rightarrow> string set \<Rightarrow> string set \<Rightarrow> string list \<Rightarrow> string set" where
  \<comment> \<open>\<^verbatim>\<open>for _ in range(depth)\<close>, leaving the loop when a ring is empty\<close>
  "related_loop es 0 related visited current_level = related"
| "related_loop es (Suc n) related visited current_level =
     (let nl = next_level es visited current_level
      in if nl = [] then related \<union> set nl
         else related_loop es n (related \<union> set nl) (visited \<union> set nl) nl)"

definition get_related :: "KnowledgeGraph \<Rightarrow> string \<Rightarrow> int \<Rightarrow> string set" where
  "get_related g topic0 depth =
     (let topic = lower topic0
      in if \<not> dict_has (nodes g) topic then {}
         else related_loop (edges g) (nat depth) {} {topic} [topic])"

definition expand_topics :: "KnowledgeGraph \<Rightarrow> string list option \<Rightarrow> bool \<Rightarrow> string set" where
  "expand_topics g topics0 include_related =
     (let ts = remdups (map lower (case topics0 of Some ts \<Rightarrow> ts | None \<Rightarrow> []))
      in if include_related \<and> ts \<noteq> []
         then fold (\<lambda>topic acc. acc \<union> get_related g topic 1) ts (set ts)
         else set ts)"

definition passes :: "datetime \<Rightarrow> string set \<Rightarrow> string \<Rightarrow> string option \<Rightarrow> string option \<Rightarrow>
    real \<Rightarrow> KnowledgeEntry \<Rightarrow> bool" where
  \<comment> \<open>the body of the loop of \<^verbatim>\<open>query\<close>: each \<^verbatim>\<open>continue\<close> is a \<open>False\<close>\<close>
  "passes now expanded_topics search source0 category0 min_confidence entry =
     (if is_expired now entry then False
      else if (case source0 of Some s \<Rightarrow> s \<noteq> [] \<and> source entry \<noteq> upper s | None \<Rightarrow> False)
        then False
      else if (case category0 of Some c \<Rightarrow> c \<noteq> [] \<and> category entry \<noteq> upper c | None \<Rightarrow> False)
        then False
      else if confidence entry < min_confidence then False
      else if expanded_topics \<noteq> {} \<and> set (topics entry) \<inter> expanded_topics = {} then False
      else if search \<noteq> [] \<and> \<not> matches_query entry search then False
      else True)"

definition sort_key_of :: "KnowledgeEntry \<Rightarrow> real \<times> datetime" where
  \<comment> \<open>\<^verbatim>\<open>key=lambda e: (e.confidence, e.updated)\<close>, compared lexicographically\<close>
  "sort_key_of e = (confidence e, updated e)"

definition sort_reverse :: "KnowledgeEntry list \<Rightarrow> KnowledgeEntry list" where
  \<comment> \<open>\<^verbatim>\<open>list.sort(key=..., reverse=True)\<close>: the stable sort of the reversed list, reversed\<close>
  "sort_reverse xs = rev (sort_key sort_key_of (rev xs))"

definition slice_to :: "'a list \<Rightarrow> int \<Rightarrow> 'a list" where
  \<comment> \<open>\<^verbatim>\<open>xs[:limit]\<close>: a negative limit counts from the end\<close>
  "slice_to xs limit =
     (if 0 \<le> limit then take (nat limit) xs else take (nat (int (length xs) + limit)) xs)"

definition query ::
  "datetime \<Rightarrow> KnowledgeSync \<Rightarrow> string \<Rightarrow> string option \<Rightarrow> string option \<Rightarrow>
   string list option \<Rightarrow> real \<Rightarrow> int \<Rightarrow> bool \<Rightarrow> KnowledgeEntry list" where
  "query now self search source0 category0 topics0 min_confidence limit include_related =
     (let expanded_topics = expand_topics (graph self) topics0 include_related;
          results = filter (passes now expanded_topics search source0 category0 min_confidence)
                      (map snd (entries self))
      in slice_to (sort_reverse results) limit)"

definition cleanup_expired :: "datetime \<Rightarrow> KnowledgeSync \<Rightarrow> nat \<times> KnowledgeSync" where
  "cleanup_expired now self =
     (let expired_ids = map fst (filter (\<lambda>kv. is_expired now (snd kv)) (entries self))
      in (length expired_ids, self\<lparr> entries := foldl dict_del (entries self) expired_ids \<rparr>))"

subsection \<open>Synchronization\<close>

definition stats0 :: stats where
  "stats0 = \<lparr> added = 0, updated_count = 0, conflicts = 0 \<rparr>"

definition sync_entry ::
  "(string \<times> KnowledgeEntry) list \<times> stats \<Rightarrow> string \<times> KnowledgeEntry \<Rightarrow>
   (string \<times> KnowledgeEntry) list \<times> stats" where
  \<comment> \<open>the body of the entry loop of \<^verbatim>\<open>sync\<close>\<close>
  "sync_entry acc kv =
     (let ents = fst acc; st = snd acc; eid = fst kv; other_entry = snd kv
      in case dict_get ents eid of
           None \<Rightarrow> (dict_set ents eid other_entry, st\<lparr> added := added st + 1 \<rparr>)
         | Some our_entry \<Rightarrow>
             if updated other_entry > updated our_entry
             then (dict_set ents eid other_entry, st\<lparr> updated_count := updated_count st + 1 \<rparr>)
             else if updated other_entry = updated our_entry
             then (ents, st\<lparr> conflicts := conflicts st + 1 \<rparr>)
             else (ents, st))"

definition merge_node ::
  "(string \<times> node_meta) list \<Rightarrow> string \<times> node_meta \<Rightarrow> (string \<times> node_meta) list" where
  \<comment> \<open>\<^verbatim>\<open>if topic not in self.graph.nodes: self.graph.nodes[topic] = meta\<close>\<close>
  "merge_node ns kv = (if \<not> dict_has ns (fst kv) then dict_set ns (fst kv) (snd kv) else ns)"

definition edge_exists :: "edge list \<Rightarrow> edge \<Rightarrow> bool" where
  \<comment> \<open>the inner loop of the edge merge of \<^verbatim>\<open>sync\<close>\<close>
  "edge_exists our_edges e =
     list_ex (\<lambda>our_edge. e_source our_edge = e_source e \<and> e_target our_edge = e_target e)
       our_edges"

definition sync_edge :: "edge list \<Rightarrow> edge \<Rightarrow> edge list" where
  "sync_edge our_edges e = (if \<not> edge_exists our_edges e then our_edges @ [e] else our_edges)"

definition sync ::
  "datetime \<Rightarrow> KnowledgeSync \<Rightarrow> KnowledgeSync option \<Rightarrow> stats \<times> KnowledgeSync" where
  "sync now self other0 =
     (case other0 of
        None \<Rightarrow> (stats0, self)
      | Some other \<Rightarrow>
          let acc = foldl sync_entry (entries self, stats0) (entries other);
              ns = foldl merge_node (nodes (graph self)) (nodes (graph other));
              es = foldl sync_edge (edges (graph self)) (edges (graph other));
              st = snd acc
          in (st, self\<lparr> entries := fst acc,
                        graph := \<lparr> nodes = ns, edges = es \<rparr>,
                        sync_log := sync_log self @
                          [\<lparr> sr_timestamp = now, sr_agent = agent self,
                             sr_synced_with = agent other, sr_stats = st \<rparr>] \<rparr>))"

text \<open>
  The export document read by \<^verbatim>\<open>import_from_sync\<close>: every key of a dictionary that the
  code reads with \<^verbatim>\<open>.get\<close> is optional, timestamps are taken as parsed, and a missing
  \<^verbatim>\<open>"content"\<close> or \<^verbatim>\<open>"source"\<close> is the \<^verbatim>\<open>KeyError\<close> of \<^verbatim>\<open>from_dict\<close>.
\<close>

record entry_dict =
  d_entry_id :: "string option"
  d_content :: "string option"
  d_source :: "string option"
  d_category :: "string option"
  d_topics :: "string list option"
  d_confidence :: "real option"
  d_created :: "datetime option"
  d_updated :: "datetime option"
  d_expires :: "datetime option"
  d_references :: "string list option"
  d_metadata :: "(string \<times> string) list option"

record graph_dict =
  gd_nodes :: "(string \<times> node_meta) list option"
  gd_edges :: "edge list option"

record sync_data =
  x_entries :: "entry_dict list option"
  x_graph :: "graph_dict option"

definition from_dict ::
  "(string \<Rightarrow> string) \<Rightarrow> (datetime \<Rightarrow> string) \<Rightarrow> datetime \<Rightarrow> entry_dict \<Rightarrow>
   error + KnowledgeEntry" where
  "from_dict sha256_hex isoformat now d =
     (case d_content d of
        None \<Rightarrow> Inl KeyError
      | Some c \<Rightarrow>
          (case d_source d of
             None \<Rightarrow> Inl KeyError
           | Some s \<Rightarrow>
               Inr (KnowledgeEntry_init sha256_hex isoformat now c s
                      (case d_category d of Some k \<Rightarrow> k | None \<Rightarrow> ''FACT'')
                      (Some (case d_topics d of Some ts \<Rightarrow> ts | None \<Rightarrow> []))
                      (case d_confidence d of Some x \<Rightarrow> x | None \<Rightarrow> 0.8)
                      (d_expires d)
                      (Some (case d_references d of Some r \<Rightarrow> r | None \<Rightarrow> []))
                      (Some (case d_metadata d of Some m \<Rightarrow> m | None \<Rightarrow> []))
                      (d_entry_id d) (d_created d) (d_updated d))))"

definition import_entry ::
  "(string \<times> KnowledgeEntry) list \<times> stats \<Rightarrow> KnowledgeEntry \<Rightarrow>
   (string \<times> KnowledgeEntry) list \<times> stats" where
  \<comment> \<open>the body of the entry loop of \<^verbatim>\<open>import_from_sync\<close>, after \<^verbatim>\<open>from_dict\<close>\<close>
  "import_entry acc entry =
     (let ents = fst acc; st = snd acc
      in case dict_get ents (entry_id entry) of
           None \<Rightarrow> (dict_set ents (entry_id entry) entry, st\<lparr> added := added st + 1 \<rparr>)
         | Some our_entry \<Rightarrow>
             if updated entry > updated our_entry
             then (dict_set ents (entry_id entry) entry,
                   st\<lparr> updated_count := updated_count st + 1 \<rparr>)
             else if updated entry = updated our_entry \<and> content entry \<noteq> content our_entry
             then (ents, st\<lparr> conflicts := conflicts st + 1 \<rparr>)
             else (ents, st))"

fun import_entries ::
  "(string \<Rightarrow> string) \<Rightarrow> (datetime \<Rightarrow> string) \<Rightarrow> datetime \<Rightarrow>
   (string \<times> KnowledgeEntry) list \<times> stats \<Rightarrow> entry_dict list \<Rightarrow>
   error option \<times> (string \<times> KnowledgeEntry) list \<times> stats" where
  \<comment> \<open>the entry loop; a \<^verbatim>\<open>KeyError\<close> leaves it with the entries merged so far\<close>
  "import_entries sha256_hex isoformat now acc [] = (None, acc)"
| "import_entries sha256_hex isoformat now acc (d # ds) =
     (case from_dict sha256_hex isoformat now d of
        Inl err \<Rightarrow> (Some err, acc)
      | Inr entry \<Rightarrow> import_entries sha256_hex isoformat now (import_entry acc entry) ds)"

definition import_edges :: "edge list \<Rightarrow> edge list \<Rightarrow> edge list" where
  \<comment> \<open>\<^verbatim>\<open>for edge in graph_data.get("edges", []): self.graph.edges.append(edge)\<close>\<close>
  "import_edges our_edges es = foldl (\<lambda>acc e. acc @ [e]) our_edges es"

definition import_from_sync ::
  "(string \<Rightarrow> string) \<Rightarrow> (datetime \<Rightarrow> string) \<Rightarrow> datetime \<Rightarrow> KnowledgeSync \<Rightarrow> sync_data \<Rightarrow>
   (error + stats) \<times> KnowledgeSync" where
  "import_from_sync sha256_hex isoformat now self data =
     (case import_entries sha256_hex isoformat now (entries self, stats0)
             (case x_entries data of Some ds \<Rightarrow> ds | None \<Rightarrow> []) of
        (Some err, acc) \<Rightarrow> (Inl err, self\<lparr> entries := fst acc \<rparr>)
      | (None, acc) \<Rightarrow>
          let g = (case x_graph data of
                     None \<Rightarrow> graph self
                   | Some gd \<Rightarrow>
                       \<lparr> nodes = foldl merge_node (nodes (graph self))
                                   (case gd_nodes gd of Some ns \<Rightarrow> ns | None \<Rightarrow> []),
                         edges = import_edges (edges (graph self))
                                   (case gd_edges gd of Some es \<Rightarrow> es | None \<Rightarrow> []) \<rparr>)
          in (Inr (snd acc), self\<lparr> entries := fst acc, graph := g \<rparr>))"

definition to_dict :: "KnowledgeEntry \<Rightarrow> entry_dict" where
  "to_dict e =
     \<lparr> d_entry_id = Some (entry_id e), d_content = Some (content e), d_source = Some (source e),
       d_category = Some (category e), d_topics = Some (topics e),
       d_confidence = Some (confidence e), d_created = Some (created e),
       d_updated = Some (updated e), d_expires = expires e,
       d_references = Some (references e), d_metadata = Some (metadata e) \<rparr>"

definition export_for_sync :: "KnowledgeSync \<Rightarrow> sync_data" where
  \<comment> \<open>the two keys of the export that \<^verbatim>\<open>import_from_sync\<close> reads\<close>
  "export_for_sync self =
     \<lparr> x_entries = Some (map (\<lambda>kv. to_dict (snd kv)) (entries self)),
       x_graph = Some \<lparr> gd_nodes = Some (nodes (graph self)),
                        gd_edges = Some (edges (graph self)) \<rparr> \<rparr>"

subsection \<open>Sample values\<close>

definition sample_entry :: "string \<Rightarrow> string list \<Rightarrow> real \<Rightarrow> datetime \<Rightarrow> datetime option \<Rightarrow> KnowledgeEntry" where
  "sample_entry i ts c u x =
     \<lparr> entry_id = i, content = ''x'', source = ''FORGE'', category = ''FACT'', topics = ts,
       confidence = c, created = 0, updated = u, expires = x, references = [],
       metadata = [] \<rparr>"

definition store0 :: KnowledgeSync where
  \<comment> \<open>a fresh store of agent FORGE\<close>
  "store0 = \<lparr> agent = ''FORGE'', entries = [], graph = KnowledgeGraph_init, sync_log = [] \<rparr>"

definition store1 :: KnowledgeSync where
  \<comment> \<open>the fresh store after \<^verbatim>\<open>add("x", topics=["a"])\<close> at instant 0, the entry's id being
      \<^verbatim>\<open>"e1"\<close>\<close>
  "store1 = snd (add (\<lambda>s. ''e1'') (\<lambda>t. ''t'') 0 store0 ''x'' ''FACT'' (Some [''a'']) 0.8
                   None None None)"

definition store2 :: KnowledgeSync where
  \<comment> \<open>three entries; the second expires at instant 4\<close>
  "store2 = store0 \<lparr> entries :=
      [(''e1'', sample_entry ''e1'' [''a''] 0.5 3 None),
       (''e2'', sample_entry ''e2'' [''a''] 0.9 1 (Some 4)),
       (''e3'', sample_entry ''e3'' [] 0.9 2 None)] \<rparr>"



definition store_ab :: KnowledgeSync where
  \<comment> \<open>the fresh store after \<^verbatim>\<open>add("x", topics=["a", "b"])\<close>\<close>
  "store_ab = snd (add (\<lambda>s. ''e1'') (\<lambda>t. ''t'') 0 store0 ''x'' ''FACT'' (Some [''a'', ''b'']) 0.8
                   None None None)"

definition store_ba :: KnowledgeSync where
  \<comment> \<open>the fresh store after \<^verbatim>\<open>add("y", topics=["b", "a"])\<close>\<close>
  "store_ba = snd (add (\<lambda>s. ''e2'') (\<lambda>t. ''t'') 0 store0 ''y'' ''FACT'' (Some [''b'', ''a'']) 0.8
                   None None None)"

definition store_abc :: KnowledgeSync where
  \<comment> \<open>\<open>store_ab\<close> after \<^verbatim>\<open>add("z", topics=["b", "c"])\<close> at instant 1\<close>
  "store_abc = snd (add (\<lambda>s. ''e3'') (\<lambda>t. ''t'') 1 store_ab ''z'' ''FACT'' (Some [''b'', ''c'']) 0.8
                   None None None)"

definition sample_edge :: "string \<Rightarrow> string \<Rightarrow> datetime \<Rightarrow> edge" where
  \<comment> \<open>the co-occurrence edge that \<^verbatim>\<open>add\<close> creates\<close>
  "sample_edge s t now =
     \<lparr> e_source = s, e_target = t, e_relation = ''co-occurs'', e_weight = 1, e_created = now \<rparr>"

definition store1z :: KnowledgeSync where
  \<comment> \<open>a second fresh store after \<^verbatim>\<open>add("z", topics=["a"])\<close> at instant 0, with the same id\<close>
  "store1z = snd (add (\<lambda>s. ''e1'') (\<lambda>t. ''t'') 0 store0 ''z'' ''FACT'' (Some [''a'']) 0.8
                    None None None)"

definition entry_x :: KnowledgeEntry where
  \<comment> \<open>the entry of \<open>store1\<close>\<close>
  "entry_x = sample_entry ''e1'' [''a''] 0.8 0 None"

definition entry_z :: KnowledgeEntry where
  \<comment> \<open>the entry of \<open>store1z\<close>: same id and timestamps, another content\<close>
  "entry_z = (sample_entry ''e1'' [''a''] 0.8 0 None)\<lparr> content := ''z'' \<rparr>"

subsection \<open>Predicates of the specification\<close>

definition edge_key :: "edge \<Rightarrow> string \<times> string" where
  \<comment> \<open>the ordered endpoint pair, which is what \<^verbatim>\<open>add_edge\<close> and \<^verbatim>\<open>sync\<close> compare\<close>
  "edge_key e = (e_source e, e_target e)"


definition ranks_before :: "KnowledgeEntry \<Rightarrow> KnowledgeEntry \<Rightarrow> bool" where
  \<comment> \<open>\<open>a\<close> may stand before \<open>b\<close> in a result sorted by (confidence, updated), both descending\<close>
  "ranks_before a b =
     (confidence b < confidence a \<or> (confidence a = confidence b \<and> updated b \<le> updated a))"

definition node_counted :: "KnowledgeGraph \<Rightarrow> string \<Rightarrow> bool" where
  \<comment> \<open>the topic is a node of the graph with a reference count of at least 1\<close>
  "node_counted g t =
     (case dict_get (nodes g) t of
        Some m \<Rightarrow> (case n_references m of Some r \<Rightarrow> 1 \<le> r | None \<Rightarrow> False)
      | None \<Rightarrow> False)"

definition topics_counted :: "KnowledgeSync \<Rightarrow> bool" where
  \<comment> \<open>the store invariant: every topic of every entry is a counted node\<close>
  "topics_counted self =
     list_all (\<lambda>kv. list_all (node_counted (graph self)) (topics (snd kv))) (entries self)"

definition count_ok :: "node_meta \<Rightarrow> bool" where
  \<comment> \<open>a reference count, where the node has one, is not negative\<close>
  "count_ok m = (case n_references m of Some r \<Rightarrow> 0 \<le> r | None \<Rightarrow> True)"

definition counts_nonneg :: "KnowledgeGraph \<Rightarrow> bool" where
  \<comment> \<open>holds of every graph that \<^verbatim>\<open>add_node\<close> built from the empty one\<close>
  "counts_nonneg g = list_all (\<lambda>kv. count_ok (snd kv)) (nodes g)"

definition merge_step ::
  "(KnowledgeEntry \<Rightarrow> KnowledgeEntry \<Rightarrow> bool) \<Rightarrow>
   (string \<times> KnowledgeEntry) list \<times> stats \<Rightarrow> string \<times> KnowledgeEntry \<Rightarrow>
   (string \<times> KnowledgeEntry) list \<times> stats" where
  \<comment> \<open>the common shape of the two merge loop bodies; \<open>differs\<close> is the extra test that
      the import form makes before it counts a conflict\<close>
  "merge_step differs acc kv =
     (case dict_get (fst acc) (fst kv) of
        None \<Rightarrow> (dict_set (fst acc) (fst kv) (snd kv), (snd acc)\<lparr> added := added (snd acc) + 1 \<rparr>)
      | Some our_entry \<Rightarrow>
          if updated (snd kv) > updated our_entry
          then (dict_set (fst acc) (fst kv) (snd kv),
                (snd acc)\<lparr> updated_count := updated_count (snd acc) + 1 \<rparr>)
          else if updated (snd kv) = updated our_entry \<and> differs (snd kv) our_entry
          then (fst acc, (snd acc)\<lparr> conflicts := conflicts (snd acc) + 1 \<rparr>)
          else acc)"

definition is_conflict ::
  "(KnowledgeEntry \<Rightarrow> KnowledgeEntry \<Rightarrow> bool) \<Rightarrow> (string \<times> KnowledgeEntry) list \<Rightarrow>
   string \<times> KnowledgeEntry \<Rightarrow> bool" where
  \<comment> \<open>the incoming pair takes the conflict branch of \<open>merge_step\<close> against these entries\<close>
  "is_conflict differs ents kv =
     (case dict_get ents (fst kv) of
        Some our_entry \<Rightarrow> updated (snd kv) = updated our_entry \<and> differs (snd kv) our_entry
      | None \<Rightarrow> False)"

definition sync_conflict :: "KnowledgeSync \<Rightarrow> string \<times> KnowledgeEntry \<Rightarrow> bool" where
  \<comment> \<open>the incoming entry of a live-store merge is known locally with the same timestamp\<close>
  "sync_conflict self kv =
     (case dict_get (entries self) (fst kv) of
        Some our_entry \<Rightarrow> updated (snd kv) = updated our_entry
      | None \<Rightarrow> False)"

definition import_conflict :: "KnowledgeSync \<Rightarrow> KnowledgeEntry \<Rightarrow> bool" where
  \<comment> \<open>the incoming entry of an import is known locally with the same timestamp and another
      content\<close>
  "import_conflict self entry =
     (case dict_get (entries self) (entry_id entry) of
        Some our_entry \<Rightarrow> updated entry = updated our_entry \<and> content entry \<noteq> content our_entry
      | None \<Rightarrow> False)"

section \<open>Properties\<close>

subsection \<open>Auxiliary facts\<close>

lemma store1_value:
  "store1 =
     \<lparr> agent = ''FORGE'',
       entries = [(''e1'', sample_entry ''e1'' [''a''] 0.8 0 None)],
       graph = \<lparr> nodes = [(''a'', \<lparr> n_created = Some 0, n_references = Some 1, n_extra = [] \<rparr>)],
                 edges = [] \<rparr>,
       sync_log = [] \<rparr>"
  by (simp add: store1_def store0_def add_def strip_def isspace_def KnowledgeEntry_init_def Let_def
      upper_def upper_char_def lower_def lower_char_def CATEGORIES_def clamp01_def
      KnowledgeGraph_init_def add_node_def dict_has_def bump_references_def sample_entry_def)

lemma dict_get_dict_set:
  "dict_get (dict_set d k v) k' = (if k' = k then Some v else dict_get d k')"
  by (induction d) (auto simp: dict_get_def)

lemma strip_eq_Nil: "(strip c = []) = list_all isspace c"
proof
  assume "list_all isspace c"
  then have d: "dropWhile isspace c = []" by (simp add: list_all_iff dropWhile_eq_Nil_conv)
  show "strip c = []" unfolding strip_def d by simp
next
  assume a: "strip c = []"
  show "list_all isspace c"
  proof (cases "dropWhile isspace c")
    case Nil
    then show ?thesis by (simp add: list_all_iff dropWhile_eq_Nil_conv)
  next
    case (Cons y ys)
    then have "\<not> isspace y" using hd_dropWhile [of isspace c] by simp
    moreover from a have "\<forall>x\<in>set (dropWhile isspace c). isspace x"
      by (simp add: strip_def dropWhile_eq_Nil_conv)
    ultimately show ?thesis using Cons by simp
  qed
qed

lemma edges_add_node: "edges (add_node g t m now) = edges g"
  by (simp add: add_node_def Let_def)








text \<open>The case maps on Latin-1 letters, on the signs U+00D7 and U+00F7, and on U+00DF.\<close>

lemma lower_latin1: "lower [CHR 0xC9, CHR ''B'', CHR 0xD7, CHR 0xDF] = [CHR 0xE9, CHR ''b'', CHR 0xD7, CHR 0xDF]"
  by (simp add: lower_def lower_char_def)

lemma upper_latin1: "upper [CHR 0xE9, CHR ''b'', CHR 0xF7, CHR 0xDF] = [CHR 0xC9, CHR ''B'', CHR 0xF7, CHR ''S'', CHR ''S'']"
  by (simp add: upper_def upper_char_def)


lemma sort_reverse_sorted: "sorted_wrt ranks_before (sort_reverse xs)"
proof -
  have "sorted (map sort_key_of (sort_key sort_key_of (rev xs)))"
    by (rule sorted_sort_key)
  then have "sorted_wrt (\<lambda>a b. sort_key_of a \<le> sort_key_of b) (sort_key sort_key_of (rev xs))"
    by (simp add: sorted_wrt_map)
  then have "sorted_wrt (\<lambda>a b. sort_key_of b \<le> sort_key_of a) (sort_reverse xs)"
    by (simp add: sort_reverse_def sorted_wrt_rev)
  then show ?thesis
    by (rule sorted_wrt_mono_rel [rotated])
       (auto simp: ranks_before_def sort_key_of_def less_eq_prod_def)
qed

lemma set_sort_reverse: "set (sort_reverse xs) = set xs"
  by (simp add: sort_reverse_def)

lemma set_slice_to: "set (slice_to xs n) \<subseteq> set xs"
  by (auto simp: slice_to_def dest: in_set_takeD)

lemma sorted_slice_to: "sorted_wrt P xs \<Longrightarrow> sorted_wrt P (slice_to xs n)"
  by (simp add: slice_to_def)

lemma length_slice_to: "0 \<le> n \<Longrightarrow> int (length (slice_to xs n)) \<le> n"
  by (simp add: slice_to_def)

lemma query_store2:
  "query 5 store2 [] None None None 0 limit False
     = slice_to [sample_entry ''e3'' [] 0.9 2 None, sample_entry ''e1'' [''a''] 0.5 3 None] limit"
  by (simp add: query_def store2_def store0_def expand_topics_def passes_def is_expired_def
      sample_entry_def sort_reverse_def sort_key_of_def Let_def KnowledgeGraph_init_def
      less_eq_prod_def)

lemma store_ab_edges: "edges (graph store_ab) = [sample_edge ''a'' ''b'' 0]"
  by (simp add: store_ab_def store0_def add_def strip_def isspace_def KnowledgeEntry_init_def
      Let_def lower_def lower_char_def KnowledgeGraph_init_def add_edge_def edges_add_node
      sample_edge_def)

lemma store_ab_entries: "entries store_ab = [(''e1'', sample_entry ''e1'' [''a'', ''b''] 0.8 0 None)]"
  by (simp add: store_ab_def store0_def add_def strip_def isspace_def KnowledgeEntry_init_def
      Let_def lower_def lower_char_def upper_def upper_char_def CATEGORIES_def clamp01_def
      sample_entry_def)

lemma store_ba_edges: "edges (graph store_ba) = [sample_edge ''b'' ''a'' 0]"
  by (simp add: store_ba_def store0_def add_def strip_def isspace_def KnowledgeEntry_init_def
      Let_def lower_def lower_char_def KnowledgeGraph_init_def add_edge_def edges_add_node
      sample_edge_def)

lemma store_abc_edges:
  "edges (graph store_abc) = [sample_edge ''a'' ''b'' 0, sample_edge ''b'' ''c'' 1]"
  by (simp add: store_abc_def add_def strip_def isspace_def KnowledgeEntry_init_def
      Let_def lower_def lower_char_def add_edge_def edges_add_node store_ab_edges
      sample_edge_def)

lemma edge_exists_iff: "edge_exists es e = (edge_key e \<in> set (map edge_key es))"
  by (induction es) (auto simp: edge_exists_def edge_key_def)

lemma sync_edge_eq:
  "sync_edge ours e = (if edge_key e \<in> set (map edge_key ours) then ours else ours @ [e])"
  by (simp add: sync_edge_def edge_exists_iff)

lemma foldl_sync_edge_prefix: "take (length ours) (foldl sync_edge ours theirs) = ours"
proof (induction theirs arbitrary: ours)
  case Nil
  then show ?case by simp
next
  case (Cons e es)
  show ?case
  proof (cases "edge_key e \<in> set (map edge_key ours)")
    case True
    then have se: "sync_edge ours e = ours" by (simp only: sync_edge_eq if_True)
    show ?thesis using Cons.IH [of ours] by (simp add: se)
  next
    case False
    then have se: "sync_edge ours e = ours @ [e]" by (simp only: sync_edge_eq if_False)
    have "take (length ours) (take (length (ours @ [e])) (foldl sync_edge (ours @ [e]) es))
          = take (length ours) (ours @ [e])"
      by (simp only: Cons.IH [of "ours @ [e]"])
    then show ?thesis by (simp add: se)
  qed
qed

lemma foldl_sync_edge_distinct:
  "distinct (map edge_key theirs) \<Longrightarrow>
   foldl sync_edge ours theirs
     = ours @ filter (\<lambda>e. edge_key e \<notin> set (map edge_key ours)) theirs"
proof (induction theirs arbitrary: ours)
  case Nil
  then show ?case by simp
next
  case (Cons e es)
  from Cons.prems have d: "distinct (map edge_key es)" and n: "edge_key e \<notin> set (map edge_key es)"
    by simp_all
  show ?case
  proof (cases "edge_key e \<in> set (map edge_key ours)")
    case True
    then have se: "sync_edge ours e = ours" by (simp only: sync_edge_eq if_True)
    show ?thesis using True Cons.IH [OF d, of ours] by (simp add: se)
  next
    case False
    then have se: "sync_edge ours e = ours @ [e]" by (simp only: sync_edge_eq if_False)
    have ne: "\<And>x. x \<in> set es \<Longrightarrow> edge_key x \<noteq> edge_key e"
      using n by (metis imageI set_map)
    have "filter (\<lambda>x. edge_key x \<notin> set (map edge_key (ours @ [e]))) es
          = filter (\<lambda>x. edge_key x \<notin> set (map edge_key ours)) es"
      by (rule filter_cong) (auto simp: ne)
    then show ?thesis using False Cons.IH [OF d, of "ours @ [e]"] by (simp add: se)
  qed
qed

lemma import_edges_eq: "import_edges ours es = ours @ es"
  unfolding import_edges_def by (induction es arbitrary: ours) simp_all

lemma sync_edges: 
  "edges (graph (snd (sync now self (Some other))))
     = foldl sync_edge (edges (graph self)) (edges (graph other))"
  by (simp add: sync_def Let_def)

lemma import_edges_prefix:
  "take (length (edges (graph self)))
     (edges (graph (snd (import_from_sync sha256_hex isoformat now self data))))
   = edges (graph self)"
  by (simp add: import_from_sync_def import_edges_eq Let_def split: prod.splits option.splits)

lemma sync_entry_merge_step: "sync_entry = merge_step (\<lambda>e ours. True)"
  by (auto simp: fun_eq_iff sync_entry_def merge_step_def Let_def split: option.splits)

lemma import_entry_merge_step:
  "import_entry acc e = merge_step (\<lambda>e ours. content e \<noteq> content ours) acc (entry_id e, e)"
  by (auto simp: import_entry_def merge_step_def Let_def split: option.splits)

lemma merge_step_frame:
  "k' \<noteq> fst kv \<Longrightarrow> dict_get (fst (merge_step d acc kv)) k' = dict_get (fst acc) k'"
  by (simp add: merge_step_def dict_get_dict_set split: option.splits)

lemma merge_step_equal_kept:
  "dict_get (fst acc) (fst kv) = Some ours \<Longrightarrow> updated (snd kv) = updated ours \<Longrightarrow>
   fst (merge_step d acc kv) = fst acc"
  by (simp add: merge_step_def)

lemma merge_step_conflicts:
  "conflicts (snd (merge_step d acc kv))
     = conflicts (snd acc) + (if is_conflict d (fst acc) kv then 1 else 0)"
  by (simp add: merge_step_def is_conflict_def split: option.splits)

lemma foldl_merge_frame:
  "k' \<notin> set (map fst xs) \<Longrightarrow> dict_get (fst (foldl (merge_step d) acc xs)) k' = dict_get (fst acc) k'"
  by (induction xs arbitrary: acc) (simp_all add: merge_step_frame)

lemma foldl_merge_conflicts:
  "distinct (map fst xs) \<Longrightarrow>
   conflicts (snd (foldl (merge_step d) acc xs))
     = conflicts (snd acc) + length (filter (is_conflict d (fst acc)) xs)"
proof (induction xs arbitrary: acc)
  case Nil
  then show ?case by simp
next
  case (Cons x xs)
  from Cons.prems have dx: "distinct (map fst xs)" and nx: "fst x \<notin> set (map fst xs)"
    by simp_all
  have same: "filter (is_conflict d (fst (merge_step d acc x))) xs
              = filter (is_conflict d (fst acc)) xs"
  proof (rule filter_cong [OF refl])
    fix y assume "y \<in> set xs"
    with nx have "fst y \<noteq> fst x" by (metis imageI set_map)
    then show "is_conflict d (fst (merge_step d acc x)) y = is_conflict d (fst acc) y"
      by (simp add: is_conflict_def merge_step_frame)
  qed
  show ?case
    using Cons.IH [OF dx, of "merge_step d acc x"]
    by (simp add: same merge_step_conflicts)
qed

lemma foldl_merge_equal_kept:
  "distinct (map fst xs) \<Longrightarrow> (k, e) \<in> set xs \<Longrightarrow> dict_get (fst acc) k = Some ours \<Longrightarrow>
   updated e = updated ours \<Longrightarrow>
   dict_get (fst (foldl (merge_step d) acc xs)) k = Some ours"
proof (induction xs arbitrary: acc)
  case Nil
  then show ?case by simp
next
  case (Cons x xs)
  from Cons.prems(1) have dx: "distinct (map fst xs)" and nx: "fst x \<notin> set (map fst xs)"
    by simp_all
  show ?case
  proof (cases "x = (k, e)")
    case True
    with Cons.prems have "fst (merge_step d acc x) = fst acc"
      by (simp add: merge_step_equal_kept)
    moreover from True nx have "k \<notin> set (map fst xs)" by simp
    ultimately show ?thesis using Cons.prems(3) by (simp add: foldl_merge_frame)
  next
    case False
    with Cons.prems(2) have in_xs: "(k, e) \<in> set xs" by simp
    with nx have "k \<noteq> fst x" by (metis fst_conv imageI set_map)
    then have "dict_get (fst (merge_step d acc x)) k = Some ours"
      using Cons.prems(3) by (simp add: merge_step_frame)
    from Cons.IH [OF dx in_xs this Cons.prems(4)] show ?thesis by simp
  qed
qed

lemma import_entries_decoded:
  "map (from_dict sha256_hex isoformat now) ds = map Inr es \<Longrightarrow>
   import_entries sha256_hex isoformat now acc ds = (None, foldl import_entry acc es)"
proof (induction ds arbitrary: es acc)
  case Nil
  then show ?case by simp
next
  case (Cons d ds)
  then obtain e es' where es: "es = e # es'" by (cases es) auto
  with Cons.prems have "from_dict sha256_hex isoformat now d = Inr e"
    and "map (from_dict sha256_hex isoformat now) ds = map Inr es'" by simp_all
  with Cons.IH [of es' "import_entry acc e"] es show ?case by simp
qed

lemma foldl_import_entry:
  "foldl import_entry acc es
     = foldl (merge_step (\<lambda>e ours. content e \<noteq> content ours)) acc (map (\<lambda>e. (entry_id e, e)) es)"
  by (induction es arbitrary: acc) (simp_all add: import_entry_merge_step)

lemma store1z_value:
  "store1z =
     \<lparr> agent = ''FORGE'',
       entries = [(''e1'', (sample_entry ''e1'' [''a''] 0.8 0 None)\<lparr> content := ''z'' \<rparr>)],
       graph = \<lparr> nodes = [(''a'', \<lparr> n_created = Some 0, n_references = Some 1, n_extra = [] \<rparr>)],
                 edges = [] \<rparr>,
       sync_log = [] \<rparr>"
  by (simp add: store1z_def store0_def add_def strip_def isspace_def KnowledgeEntry_init_def Let_def
      upper_def upper_char_def lower_def lower_char_def CATEGORIES_def clamp01_def
      KnowledgeGraph_init_def add_node_def dict_has_def bump_references_def sample_entry_def)

lemma is_conflict_sync: "is_conflict (\<lambda>e ours. True) (entries self) = sync_conflict self"
  by (auto simp: fun_eq_iff is_conflict_def sync_conflict_def split: option.splits)

lemma is_conflict_import:
  "is_conflict (\<lambda>e ours. content e \<noteq> content ours) (entries self) (entry_id e, e)
     = import_conflict self e"
  by (simp add: is_conflict_def import_conflict_def split: option.splits)

lemma sync_equal_timestamp:
  assumes "distinct (map fst (entries other))" and "(eid, theirs) \<in> set (entries other)"
    and "dict_get (entries self) eid = Some ours" and "updated theirs = updated ours"
  shows "dict_get (entries (snd (sync now self (Some other)))) eid = Some ours"
    and "sync_conflict self (eid, theirs)"
    and "conflicts (fst (sync now self (Some other)))
           = length (filter (sync_conflict self) (entries other))"
proof -
  let ?acc = "foldl (merge_step (\<lambda>e ours. True)) (entries self, stats0) (entries other)"
  have s: "sync now self (Some other)
             = (snd ?acc, self\<lparr> entries := fst ?acc,
                  graph := \<lparr> nodes = foldl merge_node (nodes (graph self)) (nodes (graph other)),
                             edges = foldl sync_edge (edges (graph self)) (edges (graph other)) \<rparr>,
                  sync_log := sync_log self @
                    [\<lparr> sr_timestamp = now, sr_agent = agent self,
                       sr_synced_with = agent other, sr_stats = snd ?acc \<rparr>] \<rparr>)"
    by (simp add: sync_def Let_def sync_entry_merge_step)
  show "dict_get (entries (snd (sync now self (Some other)))) eid = Some ours"
    using foldl_merge_equal_kept [OF assms(1) assms(2), of "(entries self, stats0)" ours]
      assms(3,4)
    by (simp add: s)
  show "sync_conflict self (eid, theirs)"
    using assms(3,4) by (simp add: sync_conflict_def)
  show "conflicts (fst (sync now self (Some other)))
           = length (filter (sync_conflict self) (entries other))"
    using foldl_merge_conflicts [OF assms(1), of "\<lambda>e ours. True" "(entries self, stats0)"]
    by (simp add: s is_conflict_sync stats0_def)
qed

lemma import_equal_timestamp:
  assumes "x_entries data = Some ds"
    and "map (from_dict sha256_hex isoformat now) ds = map Inr es"
    and "distinct (map entry_id es)" and "theirs \<in> set es"
    and "dict_get (entries self) (entry_id theirs) = Some ours"
    and "updated theirs = updated ours"
  shows "dict_get (entries (snd (import_from_sync sha256_hex isoformat now self data)))
           (entry_id theirs) = Some ours"
    and "import_conflict self theirs = (content theirs \<noteq> content ours)"
    and "case fst (import_from_sync sha256_hex isoformat now self data) of
           Inr st \<Rightarrow> conflicts st = length (filter (import_conflict self) es)
         | Inl err \<Rightarrow> False"
proof -
  let ?d = "\<lambda>e ours. content e \<noteq> content ours"
  let ?xs = "map (\<lambda>e. (entry_id e, e)) es"
  let ?acc = "foldl (merge_step ?d) (entries self, stats0) ?xs"
  have ie: "import_entries sha256_hex isoformat now (entries self, stats0) ds = (None, ?acc)"
    using import_entries_decoded [OF assms(2)] by (simp add: foldl_import_entry)
  have dk: "distinct (map fst ?xs)" using assms(3) by (simp add: comp_def)
  have mem: "(entry_id theirs, theirs) \<in> set ?xs" using assms(4) by auto
  have ents: "entries (snd (import_from_sync sha256_hex isoformat now self data)) = fst ?acc"
    by (simp add: import_from_sync_def assms(1) ie Let_def)
  have st: "fst (import_from_sync sha256_hex isoformat now self data) = Inr (snd ?acc)"
    by (simp add: import_from_sync_def assms(1) ie Let_def)
  show "dict_get (entries (snd (import_from_sync sha256_hex isoformat now self data)))
           (entry_id theirs) = Some ours"
    using foldl_merge_equal_kept [OF dk mem, of "(entries self, stats0)" ours ?d] assms(5,6)
    by (simp add: ents)
  show "import_conflict self theirs = (content theirs \<noteq> content ours)"
    using assms(5,6) by (simp add: import_conflict_def)
  have "length (filter (is_conflict ?d (entries self)) ?xs)
          = length (filter (import_conflict self) es)"
    by (simp add: filter_map comp_def is_conflict_import)
  then show "case fst (import_from_sync sha256_hex isoformat now self data) of
           Inr st \<Rightarrow> conflicts st = length (filter (import_conflict self) es)
         | Inl err \<Rightarrow> False"
    using foldl_merge_conflicts [OF dk, of ?d "(entries self, stats0)"]
    by (simp add: st stats0_def)
qed

lemma from_dict_to_dict_entry_z:
  "from_dict (\<lambda>s. ''e1'') (\<lambda>t. ''t'') 5 (to_dict entry_z) = Inr entry_z"
  by (simp add: from_dict_def to_dict_def entry_z_def sample_entry_def KnowledgeEntry_init_def
      upper_def upper_char_def lower_def lower_char_def CATEGORIES_def clamp01_def)

lemma from_dict_to_dict_entry_x:
  "from_dict (\<lambda>s. ''e1'') (\<lambda>t. ''t'') 5 (to_dict entry_x) = Inr entry_x"
  by (simp add: from_dict_def to_dict_def entry_x_def sample_entry_def KnowledgeEntry_init_def
      upper_def upper_char_def lower_def lower_char_def CATEGORIES_def clamp01_def)

lemma lower_char_idem: "lower_char (lower_char c) = lower_char c"
  by (simp add: lower_char_def)

lemma lower_idem: "lower (lower s) = lower s"
  by (simp add: lower_def lower_char_idem)

lemma init_category_closed:
  "category (KnowledgeEntry_init sha256_hex isoformat now c s k ts conf x refs md i cr up)
     \<in> set CATEGORIES"
  by (simp add: KnowledgeEntry_init_def Let_def) (simp add: CATEGORIES_def)

lemma dict_get_map_other:
  "k' \<noteq> k \<Longrightarrow> dict_get (map (\<lambda>kv. if fst kv = k then (fst kv, f (snd kv)) else kv) d) k' = dict_get d k'"
  by (induction d) (auto simp: dict_get_def)

lemma dict_get_map_same:
  "dict_get (map (\<lambda>kv. if fst kv = k then (fst kv, f (snd kv)) else kv) d) k
     = map_option f (dict_get d k)"
  by (induction d) (auto simp: dict_get_def)

lemma dict_has_iff: "dict_has d k = (dict_get d k \<noteq> None)"
  by (simp add: dict_has_def dict_get_def map_of_eq_None_iff)

lemma set_dict_set: "set (dict_set d k v) \<subseteq> insert (k, v) (set d)"
  by (induction d) (auto split: if_splits)

lemma count_ok_bump: "count_ok m \<Longrightarrow> count_ok (bump_references m)"
  by (auto simp: count_ok_def bump_references_def split: option.splits)

lemma counts_nonneg_lookup:
  "counts_nonneg g \<Longrightarrow> dict_get (nodes g) k = Some m \<Longrightarrow> n_references m = Some r \<Longrightarrow> 0 \<le> r"
proof -
  assume c: "counts_nonneg g" and l: "dict_get (nodes g) k = Some m" and r: "n_references m = Some r"
  from l have "(k, m) \<in> set (nodes g)" by (simp add: dict_get_def map_of_SomeD)
  with c r show ?thesis by (auto simp: counts_nonneg_def count_ok_def list_all_iff)
qed

lemma node_counted_add_node_mono:
  "node_counted g t \<Longrightarrow> node_counted (add_node g t' None now) t"
  by (cases "t = lower t'")
     (auto simp: node_counted_def add_node_def Let_def dict_get_map_other dict_get_map_same
        dict_get_dict_set dict_has_iff bump_references_def split: option.splits)

lemma node_counted_add_node_self:
  "counts_nonneg g \<Longrightarrow> node_counted (add_node g t None now) (lower t)"
  using counts_nonneg_lookup [of g "lower t"]
  by (auto simp: node_counted_def add_node_def Let_def dict_get_map_same
        dict_get_dict_set dict_has_iff bump_references_def split: option.splits)

lemma list_all_map_bump:
  "list_all (\<lambda>kv. count_ok (snd kv)) d \<Longrightarrow>
   list_all (\<lambda>kv. count_ok (snd kv))
     (map (\<lambda>kv. if fst kv = k then (fst kv, bump_references (snd kv)) else kv) d)"
  by (induction d) (auto simp: count_ok_bump)

lemma list_all_dict_set:
  "list_all (\<lambda>kv. P (snd kv)) d \<Longrightarrow> P v \<Longrightarrow> list_all (\<lambda>kv. P (snd kv)) (dict_set d k v)"
  by (induction d) auto

lemma counts_nonneg_add_node: "counts_nonneg g \<Longrightarrow> counts_nonneg (add_node g t None now)"
proof -
  have new_ok: "count_ok \<lparr> n_created = Some now, n_references = Some 0, n_extra = [] \<rparr>"
    by (simp add: count_ok_def)
  assume "counts_nonneg g"
  then show ?thesis
    by (simp add: counts_nonneg_def add_node_def Let_def list_all_map_bump list_all_dict_set
        new_ok)
qed

lemma nodes_add_edge:
  "nodes (add_edge g s t r w now)
     = nodes (add_node (add_node g (lower s) None now) (lower t) None now)"
  by (simp add: add_edge_def Let_def split: option.splits)

lemma node_counted_nodes: "nodes g = nodes g' \<Longrightarrow> node_counted g t = node_counted g' t"
  by (simp add: node_counted_def)

lemma counts_nonneg_nodes: "nodes g = nodes g' \<Longrightarrow> counts_nonneg g = counts_nonneg g'"
  by (simp add: counts_nonneg_def)

lemma node_counted_add_edge_mono:
  "node_counted g x \<Longrightarrow> node_counted (add_edge g s t r w now) x"
  using node_counted_nodes [OF nodes_add_edge] by (simp add: node_counted_add_node_mono)

lemma counts_nonneg_add_edge: "counts_nonneg g \<Longrightarrow> counts_nonneg (add_edge g s t r w now)"
  using counts_nonneg_nodes [OF nodes_add_edge] by (simp add: counts_nonneg_add_node)

lemma add_topic_nodes_props:
  "counts_nonneg g \<Longrightarrow>
   counts_nonneg (add_topic_nodes g ts now)
   \<and> (\<forall>x. node_counted g x \<longrightarrow> node_counted (add_topic_nodes g ts now) x)
   \<and> (\<forall>t\<in>set ts. node_counted (add_topic_nodes g ts now) (lower t))"
proof (induction ts arbitrary: g)
  case Nil
  then show ?case by simp
next
  case (Cons t ts)
  let ?g = "add_node g t None now"
  from Cons.prems have c: "counts_nonneg ?g" by (rule counts_nonneg_add_node)
  note ih = Cons.IH [OF c]
  from Cons.prems have "node_counted ?g (lower t)" by (rule node_counted_add_node_self)
  with ih show ?case by (auto simp: node_counted_add_node_mono)
qed

lemma add_edges_from_props:
  "counts_nonneg g \<Longrightarrow>
   counts_nonneg (add_edges_from g t1 ts now)
   \<and> (\<forall>x. node_counted g x \<longrightarrow> node_counted (add_edges_from g t1 ts now) x)"
proof (induction ts arbitrary: g)
  case Nil
  then show ?case by simp
next
  case (Cons t ts)
  from Cons.prems have c: "counts_nonneg (add_edge g t1 t ''co-occurs'' 1 now)"
    by (rule counts_nonneg_add_edge)
  from Cons.IH [OF c] show ?case by (auto simp: node_counted_add_edge_mono)
qed

lemma add_topic_edges_props:
  "counts_nonneg g \<Longrightarrow>
   counts_nonneg (add_topic_edges g ts now)
   \<and> (\<forall>x. node_counted g x \<longrightarrow> node_counted (add_topic_edges g ts now) x)"
proof (induction ts arbitrary: g)
  case Nil
  then show ?case by simp
next
  case (Cons t ts)
  from add_edges_from_props [OF Cons.prems, of t ts now]
  have c: "counts_nonneg (add_edges_from g t ts now)"
    and m: "\<forall>x. node_counted g x \<longrightarrow> node_counted (add_edges_from g t ts now) x" by simp_all
  from Cons.IH [OF c] m show ?case by auto
qed

text \<open>The sibling path of C3: \<open>add\<close> keeps the invariant, in every store whose graph has
  no negative reference count.\<close>

lemma add_keeps_topics_counted:
  assumes "counts_nonneg (graph self)" and "topics_counted self"
  shows "counts_nonneg (graph (snd (add sha256_hex isoformat now self c cat ts conf d refs md)))
         \<and> topics_counted (snd (add sha256_hex isoformat now self c cat ts conf d refs md))"
proof (cases "fst (add sha256_hex isoformat now self c cat ts conf d refs md)")
  case (Inl err)
  then have "snd (add sha256_hex isoformat now self c cat ts conf d refs md) = self"
    by (auto simp: add_def Let_def split: if_splits option.splits sum.splits)
  with assms show ?thesis by simp
next
  case (Inr entry)
  let ?g1 = "add_topic_nodes (graph self) (topics entry) now"
  let ?g2 = "add_topic_edges ?g1 (topics entry) now"
  from Inr have s: "snd (add sha256_hex isoformat now self c cat ts conf d refs md)
      = self\<lparr> entries := dict_set (entries self) (entry_id entry) entry, graph := ?g2 \<rparr>"
    by (auto simp: add_def Let_def split: if_splits option.splits sum.splits)
  from Inr have "topics entry = map lower (case ts of Some ts \<Rightarrow> ts | None \<Rightarrow> [])"
    by (auto simp: add_def Let_def KnowledgeEntry_init_def split: if_splits option.splits sum.splits)
  then have low: "\<forall>t\<in>set (topics entry). lower t = t" by (auto simp: lower_idem)
  note p1 = add_topic_nodes_props [OF assms(1), of "topics entry" now]
  then have c1: "counts_nonneg ?g1" by simp
  note p2 = add_topic_edges_props [OF c1, of "topics entry" now]
  from p1 low have new1: "\<forall>t\<in>set (topics entry). node_counted ?g1 t" by auto
  with p2 have new: "\<forall>t\<in>set (topics entry). node_counted ?g2 t" by auto
  from p1 p2 have old: "\<forall>x. node_counted (graph self) x \<longrightarrow> node_counted ?g2 x" by auto
  have "\<forall>kv\<in>set (dict_set (entries self) (entry_id entry) entry).
          \<forall>t\<in>set (topics (snd kv)). node_counted ?g2 t"
  proof
    fix kv assume "kv \<in> set (dict_set (entries self) (entry_id entry) entry)"
    with set_dict_set [of "entries self" "entry_id entry" entry]
    have "kv = (entry_id entry, entry) \<or> kv \<in> set (entries self)" by auto
    then show "\<forall>t\<in>set (topics (snd kv)). node_counted ?g2 t"
      using new old assms(2) by (auto simp: topics_counted_def list_all_iff)
  qed
  with p2 show ?thesis by (simp add: s topics_counted_def list_all_iff)
qed

subsection \<open>The claims\<close>





text \<open>C2: in \<open>sync\<close>, an incoming entry whose id is known locally with the same
  \<open>updated\<close> timestamp leaves the local entry as it was and is counted as a conflict,
  whatever its content: the conflict count of the merge is the number of such incoming
  entries. In \<open>import_from_sync\<close> (of a document whose entries all decode, with distinct
  ids) the local entry is left as it was too, and the incoming entry is counted exactly when
  its content differs from the local one. The last two parts say the same of one turn of
  either loop, in any state of the merge.\<close>

theorem equal_timestamp_conflict:
  "(distinct (map fst (entries other)) \<and> (eid, theirs) \<in> set (entries other)
      \<and> dict_get (entries self) eid = Some ours \<and> updated theirs = updated ours
    \<longrightarrow> dict_get (entries (snd (sync now self (Some other)))) eid = Some ours
        \<and> sync_conflict self (eid, theirs)
        \<and> conflicts (fst (sync now self (Some other)))
            = length (filter (sync_conflict self) (entries other)))
   \<and> (x_entries data = Some ds \<and> map (from_dict sha256_hex isoformat now) ds = map Inr es
      \<and> distinct (map entry_id es) \<and> incoming \<in> set es
      \<and> dict_get (entries self) (entry_id incoming) = Some ours'
      \<and> updated incoming = updated ours'
    \<longrightarrow> dict_get (entries (snd (import_from_sync sha256_hex isoformat now self data)))
          (entry_id incoming) = Some ours'
        \<and> import_conflict self incoming = (content incoming \<noteq> content ours')
        \<and> (case fst (import_from_sync sha256_hex isoformat now self data) of
              Inr st \<Rightarrow> conflicts st = length (filter (import_conflict self) es)
            | Inl err \<Rightarrow> False))
   \<and> (dict_get ents k = Some cur \<and> updated e = updated cur
    \<longrightarrow> sync_entry (ents, st) (k, e) = (ents, st\<lparr> conflicts := conflicts st + 1 \<rparr>))
   \<and> (dict_get ents (entry_id e) = Some cur \<and> updated e = updated cur
    \<longrightarrow> import_entry (ents, st) e
          = (ents, if content e \<noteq> content cur then st\<lparr> conflicts := conflicts st + 1 \<rparr>
                   else st))"
  by (intro conjI impI; elim conjE;
      ((rule sync_equal_timestamp import_equal_timestamp; assumption)
       | simp add: sync_entry_def import_entry_def Let_def))

theorem equal_timestamp_conflict_witness:
  "distinct (map fst (entries store1z)) \<and> (''e1'', entry_z) \<in> set (entries store1z)
   \<and> dict_get (entries store1) ''e1'' = Some entry_x \<and> updated entry_z = updated entry_x
   \<and> dict_get (entries (snd (sync 5 store1 (Some store1z)))) ''e1'' = Some entry_x
   \<and> conflicts (fst (sync 5 store1 (Some store1z))) = 1
   \<and> x_entries (export_for_sync store1z) = Some [to_dict entry_z]
   \<and> map (from_dict (\<lambda>s. ''e1'') (\<lambda>t. ''t'') 5) [to_dict entry_z] = map Inr [entry_z]
   \<and> content entry_z \<noteq> content entry_x
   \<and> dict_get (entries (snd (import_from_sync (\<lambda>s. ''e1'') (\<lambda>t. ''t'') 5 store1
                                (export_for_sync store1z)))) ''e1'' = Some entry_x
   \<and> fst (import_from_sync (\<lambda>s. ''e1'') (\<lambda>t. ''t'') 5 store1 (export_for_sync store1z))
       = Inr \<lparr> added = 0, updated_count = 0, conflicts = 1 \<rparr>
   \<and> fst (import_from_sync (\<lambda>s. ''e1'') (\<lambda>t. ''t'') 5 store1 (export_for_sync store1))
       = Inr \<lparr> added = 0, updated_count = 0, conflicts = 0 \<rparr>
   \<and> sync_entry (entries store1, stats0) (''e1'', entry_z)
       = (entries store1, \<lparr> added = 0, updated_count = 0, conflicts = 1 \<rparr>)
   \<and> import_entry (entries store1, stats0) entry_z
       = (entries store1, \<lparr> added = 0, updated_count = 0, conflicts = 1 \<rparr>)"
proof -
  have h1: "distinct (map fst (entries store1z))" "(''e1'', entry_z) \<in> set (entries store1z)"
    "dict_get (entries store1) ''e1'' = Some entry_x" "updated entry_z = updated entry_x"
    "content entry_z \<noteq> content entry_x" "entry_id entry_z = ''e1''"
    by (simp_all add: store1z_value store1_value entry_z_def entry_x_def dict_get_def
        sample_entry_def)
  have h2: "x_entries (export_for_sync store1z) = Some [to_dict entry_z]"
    "x_entries (export_for_sync store1) = Some [to_dict entry_x]"
    by (simp_all add: export_for_sync_def store1z_value store1_value entry_z_def entry_x_def)
  have h3: "map (from_dict (\<lambda>s. ''e1'') (\<lambda>t. ''t'') 5) [to_dict entry_z] = map Inr [entry_z]"
    by (simp add: from_dict_to_dict_entry_z)
  have same: "fst (import_from_sync (\<lambda>s. ''e1'') (\<lambda>t. ''t'') 5 store1 (export_for_sync store1))
       = Inr \<lparr> added = 0, updated_count = 0, conflicts = 0 \<rparr>"
  proof -
    have "entry_id entry_x = ''e1''" by (simp add: entry_x_def sample_entry_def)
    with h1 have "snd (import_entry (entries store1, stats0) entry_x)
        = \<lparr> added = 0, updated_count = 0, conflicts = 0 \<rparr>"
      by (simp add: import_entry_def stats0_def Let_def)
    then show ?thesis
      by (simp add: import_from_sync_def h2 from_dict_to_dict_entry_x Let_def)
  qed
  have st: "fst (import_from_sync (\<lambda>s. ''e1'') (\<lambda>t. ''t'') 5 store1 (export_for_sync store1z))
       = Inr (snd (import_entry (entries store1, stats0) entry_z))"
    by (simp add: import_from_sync_def h2 from_dict_to_dict_entry_z Let_def)
  have st': "snd (import_entry (entries store1, stats0) entry_z)
       = \<lparr> added = 0, updated_count = 0, conflicts = 1 \<rparr>"
    using h1 by (simp add: import_entry_def stats0_def Let_def)
  from equal_timestamp_conflict [where other = store1z and eid = "''e1''" and theirs = entry_z
      and self = store1 and ours = entry_x and now = 5 and data = "export_for_sync store1z"
      and ds = "[to_dict entry_z]" and ?sha256_hex = "\<lambda>s. ''e1''" and isoformat = "\<lambda>t. ''t''"
      and es = "[entry_z]" and incoming = entry_z and ours' = entry_x
      and ents = "entries store1" and st = stats0 and k = "''e1''" and e = entry_z
      and cur = entry_x]
    h1 h2 h3
  have "dict_get (entries (snd (sync 5 store1 (Some store1z)))) ''e1'' = Some entry_x
    \<and> conflicts (fst (sync 5 store1 (Some store1z)))
        = length (filter (sync_conflict store1) (entries store1z))
    \<and> dict_get (entries (snd (import_from_sync (\<lambda>s. ''e1'') (\<lambda>t. ''t'') 5 store1
                                (export_for_sync store1z)))) ''e1'' = Some entry_x
    \<and> sync_entry (entries store1, stats0) (''e1'', entry_z)
       = (entries store1, stats0\<lparr> conflicts := conflicts stats0 + 1 \<rparr>)
    \<and> import_entry (entries store1, stats0) entry_z
       = (entries store1, stats0\<lparr> conflicts := conflicts stats0 + 1 \<rparr>)"
    by simp
  moreover have "stats0\<lparr> conflicts := conflicts stats0 + 1 \<rparr>
      = \<lparr> added = 0, updated_count = 0, conflicts = 1 \<rparr>"
    by (simp add: stats0_def)
  moreover have "length (filter (sync_conflict store1) (entries store1z)) = 1"
    using h1 by (simp add: store1z_value sync_conflict_def entry_z_def)
  ultimately show ?thesis using h1 h2 h3 same st st' by simp
qed

text \<open>C3, the failing input: in the store holding one entry with topic \<open>a\<close>,
  \<^verbatim>\<open>update("e1", topics=["b"])\<close> replaces the entry's topics and leaves the graph as it
  was, so topic \<open>b\<close> of a live entry has no node; the invariant held before the call and
  fails after it.\<close>

theorem update_topics_leaves_graph:
  "topics_counted store1
   \<and> map (topics \<circ> snd)
        (entries (snd (update 10 store1 ''e1'' None None (Some [''b'']) None None))) = [[''b'']]
   \<and> graph (snd (update 10 store1 ''e1'' None None (Some [''b'']) None None)) = graph store1
   \<and> \<not> dict_has (nodes (graph (snd (update 10 store1 ''e1'' None None (Some [''b'']) None None))))
          ''b''
   \<and> \<not> topics_counted (snd (update 10 store1 ''e1'' None None (Some [''b'']) None None))"
  by (simp add: store1_value topics_counted_def node_counted_def update_def dict_get_def
      dict_has_def sample_entry_def lower_def lower_char_def Let_def)

text \<open>C4 (as the code has it): the edge merge of \<open>sync\<close> appends an incoming edge as it
  is exactly when no local edge has the same ordered pair (source, target); over a whole
  merge whose incoming edges have distinct ordered pairs, the local edges are followed by
  the incoming edges whose ordered pair is absent locally. In \<open>sync\<close> and in
  \<open>import_from_sync\<close> the local edges stay as they were, as the first edges of the result.\<close>

theorem sync_appends_absent_ordered_pairs:
  "sync_edge ours e = (if edge_key e \<in> set (map edge_key ours) then ours else ours @ [e])
   \<and> take (length (edges (graph self))) (edges (graph (snd (sync now self (Some other)))))
       = edges (graph self)
   \<and> (distinct (map edge_key (edges (graph other))) \<longrightarrow>
        edges (graph (snd (sync now self (Some other))))
          = edges (graph self)
            @ filter (\<lambda>e. edge_key e \<notin> set (map edge_key (edges (graph self))))
                (edges (graph other)))
   \<and> take (length (edges (graph self)))
        (edges (graph (snd (import_from_sync sha256_hex isoformat now self data))))
       = edges (graph self)"
proof -
  have 1: "sync_edge ours e = (if edge_key e \<in> set (map edge_key ours) then ours else ours @ [e])"
    by (rule sync_edge_eq)
  have 2: "take (length (edges (graph self))) (edges (graph (snd (sync now self (Some other)))))
       = edges (graph self)"
    by (simp only: sync_edges foldl_sync_edge_prefix)
  have 3: "distinct (map edge_key (edges (graph other))) \<longrightarrow>
        edges (graph (snd (sync now self (Some other))))
          = edges (graph self)
            @ filter (\<lambda>e. edge_key e \<notin> set (map edge_key (edges (graph self))))
                (edges (graph other))"
    using foldl_sync_edge_distinct [of "edges (graph other)" "edges (graph self)"]
    by (simp only: sync_edges) blast
  note 4 = import_edges_prefix [of self sha256_hex isoformat now data]
  from 1 2 3 4 show ?thesis by blast
qed

theorem sync_appends_absent_ordered_pairs_witness:
  "distinct (map edge_key (edges (graph store_abc)))
   \<and> edges (graph (snd (sync 5 store_ab (Some store_abc))))
       = [sample_edge ''a'' ''b'' 0, sample_edge ''b'' ''c'' 1]"
  using sync_appends_absent_ordered_pairs [of "[]" "sample_edge ''a'' ''b'' 0" store_ab 5 store_abc]
  by (simp add: store_ab_edges store_abc_edges edge_key_def sample_edge_def)

text \<open>C4, the claim as written fails: \<open>sync\<close> appends the edge (a, b) to a graph that holds
  the edge (b, a) of the same unordered pair, and \<open>import_from_sync\<close> of the store's own
  export appends the edge (a, b) a second time.\<close>

theorem merge_edges_counterexample:
  "edges (graph store_ba) = [sample_edge ''b'' ''a'' 0]
   \<and> edges (graph store_ab) = [sample_edge ''a'' ''b'' 0]
   \<and> edges (graph (snd (sync 5 store_ba (Some store_ab))))
       = [sample_edge ''b'' ''a'' 0, sample_edge ''a'' ''b'' 0]
   \<and> edges (graph (snd (import_from_sync (\<lambda>s. ''e1'') (\<lambda>t. ''t'') 5 store_ab
                           (export_for_sync store_ab))))
       = [sample_edge ''a'' ''b'' 0, sample_edge ''a'' ''b'' 0]"
  by (simp add: store_ab_edges store_ba_edges store_ab_entries sync_edges sync_edge_def
      edge_exists_def sample_edge_def sample_entry_def import_from_sync_def export_for_sync_def
      import_edges_eq Let_def from_dict_def to_dict_def import_entry_def KnowledgeEntry_init_def
      dict_get_def stats0_def)

text \<open>C5 (as the code has it): \<open>add\<close> raises \<^verbatim>\<open>ValueError\<close> exactly when the content is
  empty or all whitespace, and then the store is returned as it was; the constructor of
  \<open>KnowledgeEntry\<close> has no such check.\<close>

theorem add_rejects_blank_content:
  "(fst (add sha256_hex isoformat now self c cat ts conf d refs md) = Inl ValueError)
     = list_all isspace c
   \<and> (list_all isspace c \<longrightarrow>
        add sha256_hex isoformat now self c cat ts conf d refs md = (Inl ValueError, self))"
  by (auto simp: add_def strip_eq_Nil Let_def plus_days_def split: option.splits sum.splits)

theorem add_rejects_blank_content_witness:
  "list_all isspace ''   ''
   \<and> add (\<lambda>s. ''e2'') (\<lambda>t. ''t'') 5 store1 ''   '' ''FACT'' None 0.8 None None None
       = (Inl ValueError, store1)"
proof -
  have b: "list_all isspace ''   ''" by (simp add: isspace_def)
  with add_rejects_blank_content [of "\<lambda>s. ''e2''" "\<lambda>t. ''t''" 5 store1 "''   ''" "''FACT''"
      None "0.8" None None None]
  show ?thesis by simp
qed

text \<open>C5, the claim as written fails: the constructor builds an entry from an empty and
  from a whitespace-only content.\<close>

theorem init_accepts_blank_content_counterexample:
  "content (KnowledgeEntry_init (\<lambda>s. ''e1'') (\<lambda>t. ''t'') 0 [] ''FORGE'' ''FACT''
              None 0.8 None None None None None None) = []
   \<and> content (KnowledgeEntry_init (\<lambda>s. ''e1'') (\<lambda>t. ''t'') 0 ''   '' ''FORGE'' ''FACT''
              None 0.8 None None None None None None) = ''   ''"
  by (simp add: KnowledgeEntry_init_def)

text \<open>C6 (as the code has it): for every store and every combination of arguments, the
  result of \<open>query\<close> holds entries of the store only, none of them expired at the instant
  of evaluation, in descending order of (confidence, updated); its length is at most
  \<open>limit\<close> when \<open>limit\<close> is not negative.\<close>

theorem query_result:
  "list_all (\<lambda>e. \<not> is_expired now e)
     (query now self search src cat ts min_conf limit rel)
   \<and> sorted_wrt ranks_before (query now self search src cat ts min_conf limit rel)
   \<and> (0 \<le> limit \<longrightarrow> int (length (query now self search src cat ts min_conf limit rel)) \<le> limit)
   \<and> set (query now self search src cat ts min_conf limit rel) \<subseteq> snd ` set (entries self)"
proof -
  let ?res = "filter (passes now (expand_topics (graph self) ts rel) search src cat min_conf)
                (map snd (entries self))"
  have q: "query now self search src cat ts min_conf limit rel = slice_to (sort_reverse ?res) limit"
    by (simp add: query_def Let_def)
  have sub: "set (slice_to (sort_reverse ?res) limit) \<subseteq> set ?res"
    using set_slice_to [of "sort_reverse ?res" limit] by (simp add: set_sort_reverse)
  have "\<forall>e\<in>set ?res. \<not> is_expired now e"
    by (auto simp: passes_def split: if_splits)
  with sub have 1: "list_all (\<lambda>e. \<not> is_expired now e) (slice_to (sort_reverse ?res) limit)"
    by (auto simp: list_all_iff)
  have 2: "sorted_wrt ranks_before (slice_to (sort_reverse ?res) limit)"
    by (rule sorted_slice_to) (rule sort_reverse_sorted)
  have 3: "0 \<le> limit \<longrightarrow> int (length (slice_to (sort_reverse ?res) limit)) \<le> limit"
    by (simp add: length_slice_to)
  have 4: "set (slice_to (sort_reverse ?res) limit) \<subseteq> snd ` set (entries self)"
    using sub by auto
  from 1 2 3 4 show ?thesis unfolding q by blast
qed

theorem query_result_witness:
  "(0::int) \<le> 1
   \<and> query 5 store2 [] None None None 0 1 False = [sample_entry ''e3'' [] 0.9 2 None]
   \<and> int (length (query 5 store2 [] None None None 0 1 False)) \<le> 1
   \<and> list_all (\<lambda>e. \<not> is_expired 5 e) (query 5 store2 [] None None None 0 1 False)"
  using query_result [of 5 store2 "[]" None None None 0 1 False]
  by (simp add: query_store2 slice_to_def)

text \<open>C6, the claim as written fails: with \<open>limit = -1\<close> the slice \<^verbatim>\<open>results[:-1]\<close> drops the
  last of the two live entries and returns one entry, which is more than \<open>limit\<close>.\<close>

theorem query_negative_limit_counterexample:
  "query 5 store2 [] None None None 0 (- 1) False = [sample_entry ''e3'' [] 0.9 2 None]
   \<and> \<not> int (length (query 5 store2 [] None None None 0 (- 1) False)) \<le> - 1"
  by (simp add: query_store2 slice_to_def)

text \<open>C7, the failing input: \<^verbatim>\<open>update("e1", category="bogus")\<close> stores the category
  \<open>BOGUS\<close>, which is not in the closed set, where the constructor coerces the same string
  to \<open>FACT\<close>.\<close>

theorem update_category_not_coerced:
  "map (category \<circ> snd)
     (entries (snd (update 10 store1 ''e1'' None (Some ''bogus'') None None None))) = [''BOGUS'']
   \<and> ''BOGUS'' \<notin> set CATEGORIES
   \<and> category (KnowledgeEntry_init (\<lambda>s. ''e1'') (\<lambda>t. ''t'') 0 ''x'' ''FORGE'' ''bogus''
                 None 0.8 None None None None None None) = ''FACT''"
  by (simp add: store1_value update_def dict_get_def sample_entry_def upper_def upper_char_def
      CATEGORIES_def KnowledgeEntry_init_def Let_def)

text \<open>C8 (as the code has it): an entry is not expired exactly when it has no expiry or
  its expiry is not earlier than the instant of evaluation; at the expiry instant itself
  the entry is still live.\<close>

theorem is_expired_false_iff:
  "(is_expired now e = False) = (case expires e of None \<Rightarrow> True | Some x \<Rightarrow> now \<le> x)"
  by (auto simp: is_expired_def split: option.split)

text \<open>C8, the claim as written fails: with the expiry equal to the instant, the expiry is
  not in the future, yet \<open>is_expired\<close> returns false.\<close>

theorem is_expired_at_expiry_counterexample:
  "is_expired 5 (sample_entry ''e1'' [] 0.8 0 (Some 5)) = False
   \<and> expires (sample_entry ''e1'' [] 0.8 0 (Some 5)) = Some 5
   \<and> \<not> (5::datetime) < 5"
  by (simp add: is_expired_def sample_entry_def)

text \<open>C9: \<open>update\<close> of a present id with a content \<open>c\<close> stores \<open>strip c\<close> with no check;
  for an empty or whitespace-only \<open>c\<close> the stored content is the empty string.\<close>

theorem update_content_unvalidated:
  assumes "dict_get (entries self) eid = Some entry"
  shows "case update now self eid (Some c) cat ts conf md of
           (None, self') \<Rightarrow> False
         | (Some e', self') \<Rightarrow>
             content e' = strip c
             \<and> dict_get (entries self') eid = Some e'
             \<and> (list_all isspace c \<longrightarrow> content e' = [])"
  using assms
  by (simp add: update_def Let_def dict_get_dict_set strip_eq_Nil split: option.split)

theorem update_content_unvalidated_witness:
  "dict_get (entries store1) ''e1'' = Some (sample_entry ''e1'' [''a''] 0.8 0 None)
   \<and> list_all isspace ''   ''
   \<and> map (content \<circ> snd)
        (entries (snd (update 10 store1 ''e1'' (Some ''   '') None None None None))) = [[]]"
proof -
  have h: "dict_get (entries store1) ''e1'' = Some (sample_entry ''e1'' [''a''] 0.8 0 None)"
    by (simp add: store1_value dict_get_def)
  have b: "list_all isspace ''   ''" by (simp add: isspace_def)
  from update_content_unvalidated [OF h, where now = 10 and c = "''   ''" and cat = None
      and ts = None and conf = None and md = None] b
  have "content (the (fst (update 10 store1 ''e1'' (Some ''   '') None None None None))) = []"
    by (auto split: prod.splits option.splits)
  then show ?thesis using h b
    by (simp add: update_def store1_value dict_get_def Let_def)
qed

text \<open>C10: \<open>add\<close> with \<open>expires_in_days = 0\<close> returns the same result and the same store as
  \<open>add\<close> without the argument. For a content that is not blank this result is an entry
  with no expiry, expired at no instant, created at the instant of the call and stored
  under its id; for a blank content both calls raise \<^verbatim>\<open>ValueError\<close>. (With
  \<open>expires_in_days = 1\<close> the entry of the witness expires one day after the call.)\<close>

theorem add_zero_days_is_no_expiry:
  "add sha256_hex isoformat now self c cat ts conf (Some 0) refs md
     = add sha256_hex isoformat now self c cat ts conf None refs md
   \<and> (if list_all isspace c
       then add sha256_hex isoformat now self c cat ts conf (Some 0) refs md
              = (Inl ValueError, self)
       else (case add sha256_hex isoformat now self c cat ts conf (Some 0) refs md of
               (Inr entry, self') \<Rightarrow>
                  expires entry = None \<and> is_expired t entry = False
                  \<and> content entry = strip c \<and> created entry = now
                  \<and> dict_get (entries self') (entry_id entry) = Some entry
             | (Inl err, self') \<Rightarrow> False))"
  by (simp add: add_def strip_eq_Nil Let_def is_expired_def dict_get_dict_set)
     (simp add: KnowledgeEntry_init_def Let_def)

theorem add_zero_days_is_no_expiry_witness:
  "\<not> list_all isspace ''x''
   \<and> add (\<lambda>s. ''e1'') (\<lambda>t. ''t'') 0 store0 ''x'' ''FACT'' (Some [''a'']) 0.8 (Some 0) None None
       = (Inr (sample_entry ''e1'' [''a''] 0.8 0 None), store1)
   \<and> expires (sample_entry ''e1'' [''a''] 0.8 0 None) = None
   \<and> entries store1 = [(''e1'', sample_entry ''e1'' [''a''] 0.8 0 None)]
   \<and> (case fst (add (\<lambda>s. ''e1'') (\<lambda>t. ''t'') 0 store0 ''x'' ''FACT'' (Some [''a'']) 0.8
                   (Some 1) None None) of
         Inr entry \<Rightarrow> expires entry = Some 86400000000 | Inl err \<Rightarrow> False)"
proof -
  have nb: "\<not> list_all isspace ''x''" by (simp add: isspace_def)
  have e: "fst (add (\<lambda>s. ''e1'') (\<lambda>t. ''t'') 0 store0 ''x'' ''FACT'' (Some [''a'']) 0.8 None
                  None None) = Inr (sample_entry ''e1'' [''a''] 0.8 0 None)"
    by (simp add: add_def strip_def isspace_def KnowledgeEntry_init_def Let_def
        upper_def upper_char_def lower_def lower_char_def CATEGORIES_def clamp01_def
        sample_entry_def store0_def)
  have one: "case fst (add (\<lambda>s. ''e1'') (\<lambda>t. ''t'') 0 store0 ''x'' ''FACT'' (Some [''a'']) 0.8
                   (Some 1) None None) of
         Inr entry \<Rightarrow> expires entry = Some 86400000000 | Inl err \<Rightarrow> False"
    by (simp add: add_def strip_def isspace_def KnowledgeEntry_init_def Let_def plus_days_def
        MAX_DATETIME_def)
  from add_zero_days_is_no_expiry [of "\<lambda>s. ''e1''" "\<lambda>t. ''t''" 0 store0 "''x''" "''FACT''"
      "Some [''a'']" "0.8" None None 0]
  have "add (\<lambda>s. ''e1'') (\<lambda>t. ''t'') 0 store0 ''x'' ''FACT'' (Some [''a'']) 0.8 (Some 0) None None
     = add (\<lambda>s. ''e1'') (\<lambda>t. ''t'') 0 store0 ''x'' ''FACT'' (Some [''a'']) 0.8 None None None"
    by simp
  with e have "add (\<lambda>s. ''e1'') (\<lambda>t. ''t'') 0 store0 ''x'' ''FACT'' (Some [''a'']) 0.8 (Some 0)
      None None = (Inr (sample_entry ''e1'' [''a''] 0.8 0 None), store1)"
    by (simp add: store1_def prod_eq_iff)
  then show ?thesis using nb one
    by (simp add: sample_entry_def store1_value)
qed

end
